theory Spec2Isabelle
  imports Main "HOL-Library.Sublist" "HOL-Library.Word"
begin

section \<open>Data model\<close>

subsection \<open>bgs/filter\_result.go\<close>

text \<open>
  \<^verbatim>\<open>type FilterResult struct { Pass bool; Reason string; HashOnly bool }\<close>.
  A composite literal leaves every field it does not name at its zero value, so
  \<open>NewFilterResult\<close> yields \<open>HashOnly = false\<close>.
\<close>

record FilterResult =
  Pass :: bool
  Reason :: string
  HashOnly :: bool

definition NewFilterResult :: "bool \<Rightarrow> string \<Rightarrow> FilterResult" where
  "NewFilterResult pass reason = \<lparr>Pass = pass, Reason = reason, HashOnly = False\<rparr>"

definition NewHashOnlyFilterResult :: "string \<Rightarrow> FilterResult" where
  "NewHashOnlyFilterResult reason = \<lparr>Pass = False, Reason = reason, HashOnly = True\<rparr>"

subsection \<open>The stream events read by the filter and by the converter\<close>

text \<open>
  Of the generated \<open>SyncSubscribeRepos_*\<close> structs only the fields the code reads are
  kept: the subject (\<open>Repo\<close> or \<open>Did\<close>) and the sequence number (an \<open>int64\<close>).
  A nil pointer is \<open>None\<close>.
\<close>

record SyncSubscribeRepos_Commit =
  commit_Repo :: string
  commit_Seq :: "64 word"

record SyncSubscribeRepos_Identity =
  identity_Did :: string
  identity_Seq :: "64 word"

record SyncSubscribeRepos_Account =
  account_Did :: string
  account_Seq :: "64 word"

record SyncSubscribeRepos_Sync =
  sync_Repo :: string
  sync_Seq :: "64 word"

record XRPCStreamEvent =
  RepoCommit :: "SyncSubscribeRepos_Commit option"
  RepoIdentity :: "SyncSubscribeRepos_Identity option"
  RepoAccount :: "SyncSubscribeRepos_Account option"
  RepoSync :: "SyncSubscribeRepos_Sync option"

text \<open>
  \<open>bgs.StreamEvent\<close>; \<open>time.Time\<close> is a number of nanoseconds, and the clock reading
  \<open>time.Now()\<close> is an argument of the functions that take it.
\<close>

record StreamEvent =
  Repo :: string
  Kind :: string
  Time :: int
  Seq :: "64 word"
  Source :: string
  Country :: string
  Verified :: bool

definition NewStreamEvent :: "int \<Rightarrow> string \<Rightarrow> string \<Rightarrow> StreamEvent" where
  "NewStreamEvent now repo kind =
     \<lparr>Repo = repo, Kind = kind, Time = now, Seq = 0, Source = [], Country = [], Verified = False\<rparr>"

subsection \<open>cmd/relay/types.go\<close>

definition ConvertXRPCToStreamEvent :: "int \<Rightarrow> XRPCStreamEvent option \<Rightarrow> StreamEvent option" where
  "ConvertXRPCToStreamEvent now xrpc =
     (case xrpc of
        None \<Rightarrow> None
      | Some x \<Rightarrow>
          (let event = \<lparr>Repo = [], Kind = [], Time = now, Seq = 0, Source = [], Country = [],
                         Verified = False\<rparr>
           in Some
             (case RepoCommit x of
                Some c \<Rightarrow> event\<lparr>Repo := commit_Repo c, Kind := ''commit'', Seq := commit_Seq c\<rparr>
              | None \<Rightarrow>
                 (case RepoIdentity x of
                    Some i \<Rightarrow> event\<lparr>Repo := identity_Did i, Kind := ''identity'', Seq := identity_Seq i\<rparr>
                  | None \<Rightarrow>
                     (case RepoAccount x of
                        Some a \<Rightarrow> event\<lparr>Repo := account_Did a, Kind := ''account'', Seq := account_Seq a\<rparr>
                      | None \<Rightarrow> event)))))"

section \<open>Go library functions on strings\<close>

text \<open>
  A Go string is a sequence of bytes, here a \<open>string\<close> (a list of 8-bit characters).
  \<open>strings.ToLower\<close> and \<open>strings.ToUpper\<close> have a fast path for strings whose bytes
  are all below \<open>utf8.RuneSelf = 0x80\<close>, which shifts the letters \<open>A..Z\<close> (\<open>a..z\<close>)
  by \<open>'a' - 'A' = 32\<close>; any other string goes through
  \<open>strings.Map(unicode.ToLower, s)\<close> (\<open>unicode.ToUpper\<close>), whose Unicode tables are
  not part of this repository: that mapping is the argument \<open>mapLower\<close> (\<open>mapUpper\<close>).
\<close>

definition isASCII :: "string \<Rightarrow> bool" where
  "isASCII s = list_all (\<lambda>c. (of_char c :: nat) < 128) s"

definition lowerByte :: "char \<Rightarrow> char" where
  "lowerByte c =
     (if (65::nat) \<le> of_char c \<and> (of_char c :: nat) \<le> 90
      then char_of ((of_char c :: nat) + 32) else c)"

definition upperByte :: "char \<Rightarrow> char" where
  "upperByte c =
     (if (97::nat) \<le> of_char c \<and> (of_char c :: nat) \<le> 122
      then char_of ((of_char c :: nat) - 32) else c)"

definition ToLower :: "(string \<Rightarrow> string) \<Rightarrow> string \<Rightarrow> string" where
  "ToLower mapLower s = (if isASCII s then map lowerByte s else mapLower s)"

definition ToUpper :: "(string \<Rightarrow> string) \<Rightarrow> string \<Rightarrow> string" where
  "ToUpper mapUpper s = (if isASCII s then map upperByte s else mapUpper s)"

text \<open>
  \<open>strings.Contains(s, substr)\<close> is \<open>strings.Index(s, substr) >= 0\<close>: some position of
  \<open>s\<close> starts with \<open>substr\<close>. The empty \<open>substr\<close> is found in every string.
\<close>

fun Contains :: "string \<Rightarrow> string \<Rightarrow> bool" where
  "Contains [] substr = (substr = [])"
| "Contains (c # s) substr = (prefix substr (c # s) \<or> Contains s substr)"

section \<open>bgs/geographic\_filter.go\<close>

text \<open>
  The two Go maps are partial functions, and \<open>ttl\<close> is a \<open>time.Duration\<close>, a number
  of nanoseconds. The methods are first given as one call each, run to its end with no
  other goroutine in between; the regions in which a query holds \<open>cacheMutex\<close>, and
  the schedules of several goroutines, follow in their own subsection.
\<close>

record CanadianGeographicFilter =
  cache :: "string \<rightharpoonup> bool"
  ttl :: int
  knownDIDs :: "string \<rightharpoonup> bool"

definition NewCanadianGeographicFilter :: CanadianGeographicFilter where
  "NewCanadianGeographicFilter =
     \<lparr>cache = Map.empty, ttl = 24 * 3600 * 1000000000, knownDIDs = Map.empty\<rparr>"

definition NewGeographicFilter :: "string \<Rightarrow> CanadianGeographicFilter" where
  "NewGeographicFilter countryCode = NewCanadianGeographicFilter"

definition canadianKeywords :: "string list" where
  "canadianKeywords =
     [''canadian'', ''canada'', ''toronto'', ''vancouver'', ''montreal'',
      ''calgary'', ''ottawa'', ''edmonton'', ''winnipeg'', ''quebec'',
      ''halifax'', ''victoria'', ''saskatoon'', ''regina'', ''fredericton'']"

definition setCached :: "CanadianGeographicFilter \<Rightarrow> string \<Rightarrow> bool \<Rightarrow> CanadianGeographicFilter" where
  "setCached f did v = f\<lparr>cache := (cache f)(did \<mapsto> v)\<rparr>"

text \<open>
  The \<open>for _, keyword := range canadianKeywords\<close> loop of \<open>isLikelyCanadian\<close>,
  together with the two statements after it: the first keyword found in \<open>didLower\<close>
  caches and returns true; when the keywords are used up, false is cached and returned.
\<close>

fun keywordLoop ::
  "CanadianGeographicFilter \<Rightarrow> string \<Rightarrow> string \<Rightarrow> string list \<Rightarrow> bool \<times> CanadianGeographicFilter" where
  "keywordLoop f did didLower [] = (False, setCached f did False)"
| "keywordLoop f did didLower (keyword # rest) =
     (if Contains didLower keyword then (True, setCached f did True)
      else keywordLoop f did didLower rest)"

definition isLikelyCanadian ::
  "(string \<Rightarrow> string) \<Rightarrow> CanadianGeographicFilter \<Rightarrow> string \<Rightarrow> bool \<times> CanadianGeographicFilter" where
  "isLikelyCanadian mapLower f did =
     (case cache f did of
        Some cached \<Rightarrow> (cached, f)
      | None \<Rightarrow>
         (case knownDIDs f did of
            Some known \<Rightarrow> (known, setCached f did known)
          | None \<Rightarrow> keywordLoop f did (ToLower mapLower did) canadianKeywords))"

text \<open>
  The \<open>switch\<close> of \<open>ShouldIncludeInSovereignFeed\<close> that fills \<open>repo\<close>: the first
  non-nil field in the order commit, identity, account, sync; \<open>None\<close> is the
  \<open>default\<close> branch.
\<close>

definition extractRepo :: "XRPCStreamEvent \<Rightarrow> string option" where
  "extractRepo event =
     (case RepoCommit event of
        Some c \<Rightarrow> Some (commit_Repo c)
      | None \<Rightarrow>
         (case RepoIdentity event of
            Some i \<Rightarrow> Some (identity_Did i)
          | None \<Rightarrow>
             (case RepoAccount event of
                Some a \<Rightarrow> Some (account_Did a)
              | None \<Rightarrow>
                 (case RepoSync event of
                    Some s \<Rightarrow> Some (sync_Repo s)
                  | None \<Rightarrow> None))))"

definition ShouldIncludeInSovereignFeed ::
  "(string \<Rightarrow> string) \<Rightarrow> CanadianGeographicFilter \<Rightarrow> XRPCStreamEvent option
     \<Rightarrow> bool \<times> CanadianGeographicFilter" where
  "ShouldIncludeInSovereignFeed mapLower f event =
     (case event of
        None \<Rightarrow> (False, f)
      | Some e \<Rightarrow>
         (case extractRepo e of
            None \<Rightarrow> (False, f)
          | Some repo \<Rightarrow> isLikelyCanadian mapLower f repo))"

definition Initialize :: "CanadianGeographicFilter \<Rightarrow> string option" where
  "Initialize f = None"

definition AddCanadianDID :: "CanadianGeographicFilter \<Rightarrow> string \<Rightarrow> CanadianGeographicFilter" where
  "AddCanadianDID f did =
     f\<lparr>knownDIDs := (knownDIDs f)(did \<mapsto> True), cache := (cache f)(did \<mapsto> True)\<rparr>"

definition GetCache :: "CanadianGeographicFilter \<Rightarrow> (string \<rightharpoonup> bool)" where
  "GetCache f = cache f"

subsection \<open>The lock regions of a query\<close>

text \<open>
  \<open>isLikelyCanadian\<close> above is one call with no other goroutine running. The source
  holds \<open>cacheMutex\<close> in three separate regions and gives it up between them:
  \<^enum> \<open>RLock\<close>, look \<open>did\<close> up in \<open>cache\<close>, \<open>RUnlock\<close>: a hit returns;
  \<^enum> \<open>RLock\<close>, look \<open>did\<close> up in \<open>knownDIDs\<close>, \<open>RUnlock\<close>; on a miss the keyword
    heuristic is then computed with no lock held;
  \<^enum> \<open>setCached\<close>: \<open>Lock\<close>, write \<open>cache[did]\<close>, \<open>Unlock\<close>, and return the value.

  A goroutine inside \<open>ShouldIncludeInSovereignFeed\<close> is at one of these regions, with
  the value it is about to write when it has reached the third, or has returned.
\<close>

datatype query_pc =
  AtCacheLookup string
| AtKnownLookup string
| AtWrite string bool
| Returned bool

text \<open>
  Entering \<open>ShouldIncludeInSovereignFeed\<close>: the nil check and the \<open>switch\<close> touch no
  shared state.
\<close>

definition startQuery :: "XRPCStreamEvent option \<Rightarrow> query_pc" where
  "startQuery event =
     (case event of
        None \<Rightarrow> Returned False
      | Some e \<Rightarrow>
         (case extractRepo e of
            None \<Rightarrow> Returned False
          | Some repo \<Rightarrow> AtCacheLookup repo))"

text \<open>
  One region of a query, run under the lock. The value of the heuristic is the first
  component of \<open>keywordLoop\<close>, which does not depend on the filter.
\<close>

fun stepQuery ::
  "(string \<Rightarrow> string) \<Rightarrow> CanadianGeographicFilter \<Rightarrow> query_pc \<Rightarrow> query_pc \<times> CanadianGeographicFilter" where
  "stepQuery mapLower f (AtCacheLookup did) =
     (case cache f did of
        Some cached \<Rightarrow> (Returned cached, f)
      | None \<Rightarrow> (AtKnownLookup did, f))"
| "stepQuery mapLower f (AtKnownLookup did) =
     (case knownDIDs f did of
        Some known \<Rightarrow> (AtWrite did known, f)
      | None \<Rightarrow>
         (AtWrite did (fst (keywordLoop f did (ToLower mapLower did) canadianKeywords)), f))"
| "stepQuery mapLower f (AtWrite did v) = (Returned v, setCached f did v)"
| "stepQuery mapLower f (Returned v) = (Returned v, f)"

text \<open>
  The filter shared by the goroutines of the relay (spec, section 5: one per connection),
  each numbered and inside at most one query. A schedule is a list of actions: goroutine
  \<open>t\<close> calls \<open>ShouldIncludeInSovereignFeed\<close>, goroutine \<open>t\<close> runs its next region,
  or some goroutine runs \<open>AddCanadianDID\<close>, which is a single region.
\<close>

record world =
  shared :: CanadianGeographicFilter
  goroutines :: "nat \<rightharpoonup> query_pc"

datatype action =
  Go nat "XRPCStreamEvent option"
| Step nat
| Add string

fun act :: "(string \<Rightarrow> string) \<Rightarrow> world \<Rightarrow> action \<Rightarrow> world" where
  "act mapLower w (Go t event) = w\<lparr>goroutines := (goroutines w)(t \<mapsto> startQuery event)\<rparr>"
| "act mapLower w (Step t) =
     (case goroutines w t of
        None \<Rightarrow> w
      | Some pc \<Rightarrow>
         (case stepQuery mapLower (shared w) pc of
            (pc', f') \<Rightarrow> w\<lparr>shared := f', goroutines := (goroutines w)(t \<mapsto> pc')\<rparr>))"
| "act mapLower w (Add did) = w\<lparr>shared := AddCanadianDID (shared w) did\<rparr>"

fun run :: "(string \<Rightarrow> string) \<Rightarrow> world \<Rightarrow> action list \<Rightarrow> world" where
  "run mapLower w [] = w"
| "run mapLower w (a # as) = run mapLower (act mapLower w a) as"

text \<open>A new filter with no query in flight.\<close>

definition newWorld :: world where
  "newWorld = \<lparr>shared = NewCanadianGeographicFilter, goroutines = Map.empty\<rparr>"

section \<open>The per-event filter decision of the relay\<close>

text \<open>
  Modelled from the spec: the declarations of \<open>BGS\<close> and \<open>BGSConfig\<close> are not among
  the sources; their fields are those the struct literals of
  \<open>bgs/sovereignty_integration_test.go\<close> set. The metrics are kept as the counts the
  spec (section 4.3) says a decision feeds: the processed counter by (outcome,
  jurisdiction), the number of latency observations, and the two cumulative counters.
\<close>

record counters =
  processed :: "bool \<times> string \<Rightarrow> nat"
  latencyObservations :: nat
  sent :: nat
  filtered :: nat

record BGSConfig =
  bgs_SovereigntyEnabled :: bool
  bgs_SovereignCountryCode :: string
  bgs_SovereigntyMode :: string

record BGS =
  config :: BGSConfig
  geographicFilter :: "CanadianGeographicFilter option"
  sovereigntyMetrics :: counters

text \<open>
  Modelled from the spec: the recording step of section 4.3, which increments the
  processed counter for (outcome, jurisdiction), observes one latency, and increments the
  sent or the filtered counter by outcome.
\<close>

definition recordDecision :: "counters \<Rightarrow> bool \<Rightarrow> string \<Rightarrow> counters" where
  "recordDecision m outcome country =
     m\<lparr>processed := (processed m)((outcome, country) := Suc (processed m (outcome, country))),
       latencyObservations := Suc (latencyObservations m),
       sent := (if outcome then Suc (sent m) else sent m),
       filtered := (if outcome then filtered m else Suc (filtered m))\<rparr>"

text \<open>
  Modelled from the spec: \<open>BGS.sovereignEventFilter\<close> (the spec's
  \<open>SovereignEventFilter.Decide\<close>) is called by the tests of
  \<open>bgs/sovereignty_integration_test.go\<close> but its body is not among the sources. The
  spec, section 4.3: with no classifier attached the decision is false unconditionally;
  otherwise it delegates to the classifier and then records the outcome in the metrics.
\<close>

definition sovereignEventFilter ::
  "(string \<Rightarrow> string) \<Rightarrow> BGS \<Rightarrow> XRPCStreamEvent option \<Rightarrow> bool \<times> BGS" where
  "sovereignEventFilter mapLower b event =
     (case geographicFilter b of
        None \<Rightarrow> (False, b)
      | Some f \<Rightarrow>
         (case ShouldIncludeInSovereignFeed mapLower f event of
            (outcome, f') \<Rightarrow>
              (outcome,
               b\<lparr>geographicFilter := Some f',
                  sovereigntyMetrics :=
                    recordDecision (sovereigntyMetrics b) outcome
                      (bgs_SovereignCountryCode (config b))\<rparr>)))"

section \<open>Sovereignty configuration\<close>

text \<open>
  \<open>SovereignConfig.Validate\<close>. A Go \<open>error\<close> built by \<open>errors.New\<close> is its message;
  \<open>None\<close> is the nil error. \<open>len\<close> of a string counts bytes.
\<close>

record SovereignConfig =
  Enabled :: bool
  CountryCode :: string
  DataRetentionDays :: int
  PrivacyMode :: string

definition validCodes :: "string list" where
  "validCodes =
     [''CA'', ''US'', ''GB'', ''FR'', ''DE'', ''AU'', ''NZ'', ''JP'', ''KR'', ''IN'', ''BR'', ''MX'']"

text \<open>The loop that sets \<open>valid\<close> and breaks at the first code equal to \<open>upperCode\<close>.\<close>

fun validLoop :: "string \<Rightarrow> string list \<Rightarrow> bool" where
  "validLoop upperCode [] = False"
| "validLoop upperCode (code # rest) = (if upperCode = code then True else validLoop upperCode rest)"

definition Validate :: "(string \<Rightarrow> string) \<Rightarrow> SovereignConfig \<Rightarrow> string option" where
  "Validate mapUpper sc =
     (if \<not> Enabled sc then None
      else if CountryCode sc = [] then
        Some ''country code is required when sovereignty is enabled''
      else if length (CountryCode sc) \<noteq> 2 then
        Some ''country code must be 2 characters (ISO 3166-1 alpha-2)''
      else if \<not> validLoop (ToUpper mapUpper (CountryCode sc)) validCodes then
        Some ''invalid country code''
      else None)"

record Config =
  DualMode :: bool
  Sovereign :: SovereignConfig

definition IsSovereignEnabled :: "Config \<Rightarrow> bool" where
  "IsSovereignEnabled c = Enabled (Sovereign c)"

section \<open>Registered endpoints\<close>




section \<open>bgs/sovereignty\_metrics.go\<close>

text \<open>
  A \<open>SovereigntyMetrics\<close> value holds five collectors, each known here by the name it
  registers under. A \<open>*SovereigntyMetrics\<close> is an address in \<open>heap\<close> (\<open>None\<close> is nil),
  so that two pointers are the same instance exactly when the addresses are equal.

  The package variables are \<open>sovereigntyMetricsInstance\<close> and
  \<open>sovereigntyMetricsOnce\<close> (the done flag of the \<open>sync.Once\<close>). \<open>registry\<close> holds
  the names registered with the default Prometheus registerer: every \<open>promauto.New*\<close>
  registers its collector there and panics when the name is already taken.
\<close>

record SovereigntyMetrics =
  EventsProcessed :: string
  FilterLatency :: string
  ActiveConnections :: string
  CanadianEventsSent :: string
  FilteredEvents :: string

record metricsGlobals =
  sovereigntyMetricsInstance :: "nat option"
  sovereigntyMetricsOnce :: bool
  heap :: "SovereigntyMetrics list"
  registry :: "string list"

definition metricNames :: "string list" where
  "metricNames =
     [''sovereignty_events_processed_total'', ''sovereignty_filter_latency_seconds'',
      ''sovereignty_active_connections'', ''sovereignty_canadian_events_sent_total'',
      ''sovereignty_filtered_events_total'']"

text \<open>
  The five \<open>promauto\<close> calls of the composite literal, in source order: the first name
  already registered panics (\<open>Some\<close> of that name), with the earlier ones registered.
\<close>

fun registerAll :: "string list \<Rightarrow> string list \<Rightarrow> string option \<times> string list" where
  "registerAll reg [] = (None, reg)"
| "registerAll reg (n # ns) =
     (if n \<in> set reg then (Some n, reg) else registerAll (reg @ [n]) ns)"

definition ResetSovereigntyMetricsForTesting :: "metricsGlobals \<Rightarrow> metricsGlobals" where
  "ResetSovereigntyMetricsForTesting g =
     g\<lparr>sovereigntyMetricsInstance := None, sovereigntyMetricsOnce := False\<rparr>"

text \<open>
  \<open>Once.Do(f)\<close> runs \<open>f\<close> only while the done flag is unset, and sets the flag when
  \<open>f\<close> returns or panics. A panic (\<open>Inl\<close>) leaves the instance variable as it was,
  since the assignment comes after the literal is built.
\<close>

definition NewSovereigntyMetrics :: "metricsGlobals \<Rightarrow> (string + nat option) \<times> metricsGlobals" where
  "NewSovereigntyMetrics g =
     (if sovereigntyMetricsOnce g then (Inr (sovereigntyMetricsInstance g), g)
      else
        (case registerAll (registry g) metricNames of
           (Some dup, reg) \<Rightarrow> (Inl dup, g\<lparr>sovereigntyMetricsOnce := True, registry := reg\<rparr>)
         | (None, reg) \<Rightarrow>
             (let g' = g\<lparr>sovereigntyMetricsInstance := Some (length (heap g)),
                          sovereigntyMetricsOnce := True,
                          heap := heap g @
                            [\<lparr>EventsProcessed = ''sovereignty_events_processed_total'',
                              FilterLatency = ''sovereignty_filter_latency_seconds'',
                              ActiveConnections = ''sovereignty_active_connections'',
                              CanadianEventsSent = ''sovereignty_canadian_events_sent_total'',
                              FilteredEvents = ''sovereignty_filtered_events_total''\<rparr>],
                          registry := reg\<rparr>
              in (Inr (sovereigntyMetricsInstance g'), g'))))"

text \<open>The package variables when the process starts, before any collector is registered.\<close>

definition initialGlobals :: metricsGlobals where
  "initialGlobals =
     \<lparr>sovereigntyMetricsInstance = None, sovereigntyMetricsOnce = False, heap = [], registry = []\<rparr>"

section \<open>Facts about the loops and the cache\<close>

lemmas go_string_eval = ToLower_def ToUpper_def isASCII_def lowerByte_def upperByte_def
  char_of_def bit_Suc_0_iff

lemma Contains_sublist: "Contains s substr \<longleftrightarrow> sublist substr s"
  by (induction s) (auto simp: sublist_Cons_right)

lemma keywordLoop_result:
  "keywordLoop f did didLower ks =
     ((\<exists>k \<in> set ks. Contains didLower k), setCached f did (\<exists>k \<in> set ks. Contains didLower k))"
  by (induction ks) auto

lemma validLoop_set: "validLoop upperCode cs \<longleftrightarrow> upperCode \<in> set cs"
  by (induction cs) auto

lemma isLikelyCanadian_hit: "cache f did = Some b \<Longrightarrow> isLikelyCanadian mapLower f did = (b, f)"
  by (simp add: isLikelyCanadian_def)

lemma isLikelyCanadian_caches:
  "isLikelyCanadian mapLower f did = (b, f') \<Longrightarrow> cache f' did = Some b"
  by (auto simp: isLikelyCanadian_def keywordLoop_result setCached_def split: option.splits)

lemma registerAll_fresh:
  "distinct ns \<Longrightarrow> set ns \<inter> set reg = {} \<Longrightarrow> registerAll reg ns = (None, reg @ ns)"
  by (induction ns arbitrary: reg) auto

lemma has_keyword_Toronto:
  "(\<exists>k \<in> set canadianKeywords. sublist k (ToLower id ''did:plc:Toronto-User-123'')) = True"
  by (simp add: Contains_sublist [symmetric] canadianKeywords_def go_string_eval)

lemma has_keyword_unknown:
  "(\<exists>k \<in> set canadianKeywords. sublist k (ToLower id ''did:plc:unknown789'')) = False"
  by (simp add: Contains_sublist [symmetric] canadianKeywords_def go_string_eval)

lemma toronto_sync_included:
  "fst (isLikelyCanadian id NewCanadianGeographicFilter ''did:plc:toronto-sync'') = True"
  by (simp add: isLikelyCanadian_def NewCanadianGeographicFilter_def canadianKeywords_def
      setCached_def go_string_eval)

lemma validCodes_upper: "code \<in> set validCodes \<Longrightarrow> ToUpper mapUpper code = code"
  by (auto simp: validCodes_def go_string_eval)




lemma metricNames_distinct: "distinct metricNames"
  by (simp add: metricNames_def)

lemma NewSovereigntyMetrics_done:
  "sovereigntyMetricsOnce g \<Longrightarrow> NewSovereigntyMetrics g = (Inr (sovereigntyMetricsInstance g), g)"
  by (simp add: NewSovereigntyMetrics_def)

lemma NewSovereigntyMetrics_sets_once:
  "sovereigntyMetricsOnce (snd (NewSovereigntyMetrics g))"
  by (auto simp: NewSovereigntyMetrics_def Let_def split: prod.splits option.splits)

lemma NewSovereigntyMetrics_returns_instance:
  "NewSovereigntyMetrics g = (Inr p, g') \<Longrightarrow> sovereigntyMetricsInstance g' = p"
  by (auto simp: NewSovereigntyMetrics_def Let_def split: prod.splits option.splits if_splits)

section \<open>The classifier\<close>

text \<open>
  Claim C1. The inclusion check answers false for a nil event and for a non-nil event in
  which none of the four recognised fields (commit, identity, account, sync) is set, and
  it does so without touching the filter and without an error; these are exactly the
  events from which the \<open>switch\<close> extracts no subject.
\<close>

theorem ShouldInclude_no_subject_false:
  "ShouldIncludeInSovereignFeed mapLower f None = (False, f)
   \<and> (RepoCommit e = None \<and> RepoIdentity e = None \<and> RepoAccount e = None \<and> RepoSync e = None
        \<longrightarrow> ShouldIncludeInSovereignFeed mapLower f (Some e) = (False, f))
   \<and> (extractRepo e = None \<longleftrightarrow>
        RepoCommit e = None \<and> RepoIdentity e = None \<and> RepoAccount e = None \<and> RepoSync e = None)"
  by (simp add: ShouldIncludeInSovereignFeed_def extractRepo_def split: option.splits)

theorem ShouldInclude_no_subject_false_witness:
  "ShouldIncludeInSovereignFeed id (AddCanadianDID NewCanadianGeographicFilter []) None
     = (False, AddCanadianDID NewCanadianGeographicFilter [])
   \<and> ShouldIncludeInSovereignFeed id (AddCanadianDID NewCanadianGeographicFilter [])
        (Some \<lparr>RepoCommit = None, RepoIdentity = None, RepoAccount = None, RepoSync = None\<rparr>)
     = (False, AddCanadianDID NewCanadianGeographicFilter [])"
  using ShouldInclude_no_subject_false [of id "AddCanadianDID NewCanadianGeographicFilter []"
      "\<lparr>RepoCommit = None, RepoIdentity = None, RepoAccount = None, RepoSync = None\<rparr>"]
  by simp

text \<open>
  Claim C2. With no classifier attached (\<open>geographicFilter\<close> is nil) the per-event
  decision is false for every event, and nothing is recorded.
\<close>

theorem sovereignEventFilter_nil_filter:
  "geographicFilter b = None \<Longrightarrow> sovereignEventFilter mapLower b event = (False, b)"
  by (simp add: sovereignEventFilter_def)

theorem sovereignEventFilter_nil_filter_witness:
  "sovereignEventFilter id
     \<lparr>config = \<lparr>bgs_SovereigntyEnabled = False, bgs_SovereignCountryCode = [], bgs_SovereigntyMode = []\<rparr>,
      geographicFilter = None,
      sovereigntyMetrics = \<lparr>processed = (\<lambda>_. 0), latencyObservations = 0, sent = 0, filtered = 0\<rparr>\<rparr>
     (Some \<lparr>RepoCommit = Some \<lparr>commit_Repo = ''did:plc:toronto-user'', commit_Seq = 1\<rparr>,
            RepoIdentity = None, RepoAccount = None, RepoSync = None\<rparr>)
   = (False,
      \<lparr>config = \<lparr>bgs_SovereigntyEnabled = False, bgs_SovereignCountryCode = [], bgs_SovereigntyMode = []\<rparr>,
      geographicFilter = None,
      sovereigntyMetrics = \<lparr>processed = (\<lambda>_. 0), latencyObservations = 0, sent = 0, filtered = 0\<rparr>\<rparr>)"
  by (rule sovereignEventFilter_nil_filter) simp

text \<open>
  Claim C3. For a subject that is neither in the cache nor in the override registry,
  \<open>isLikelyCanadian\<close> returns true exactly when the lower-cased identifier contains one
  of the fixed keywords as a substring, false otherwise, and stores that boolean in the
  cache under the identifier, leaving the rest of the filter as it was.
\<close>

theorem isLikelyCanadian_heuristic:
  assumes "cache f did = None" and "knownDIDs f did = None"
  shows "isLikelyCanadian mapLower f did =
           ((\<exists>k \<in> set canadianKeywords. sublist k (ToLower mapLower did)),
            f\<lparr>cache := (cache f)(did \<mapsto> (\<exists>k \<in> set canadianKeywords. sublist k (ToLower mapLower did)))\<rparr>)"
  using assms
  by (simp add: isLikelyCanadian_def keywordLoop_result setCached_def Contains_sublist)

theorem isLikelyCanadian_heuristic_witness:
  "isLikelyCanadian id NewCanadianGeographicFilter ''did:plc:Toronto-User-123''
     = (True, NewCanadianGeographicFilter\<lparr>cache := [''did:plc:Toronto-User-123'' \<mapsto> True]\<rparr>)
   \<and> isLikelyCanadian id NewCanadianGeographicFilter ''did:plc:unknown789''
     = (False, NewCanadianGeographicFilter\<lparr>cache := [''did:plc:unknown789'' \<mapsto> False]\<rparr>)"
  using isLikelyCanadian_heuristic [of NewCanadianGeographicFilter "''did:plc:Toronto-User-123''" id]
    isLikelyCanadian_heuristic [of NewCanadianGeographicFilter "''did:plc:unknown789''" id]
  by (simp only: has_keyword_Toronto has_keyword_unknown) (simp add: NewCanadianGeographicFilter_def)

section \<open>Overrides and cached values under concurrent queries\<close>

text \<open>
  A query that no other goroutine interrupts goes through its regions in three steps and
  ends as \<open>isLikelyCanadian\<close> says.
\<close>

lemma stepQuery_uninterrupted:
  "(case stepQuery mapLower f (AtCacheLookup did) of
      (p1, f1) \<Rightarrow>
        (case stepQuery mapLower f1 p1 of
           (p2, f2) \<Rightarrow> stepQuery mapLower f2 p2))
   = (Returned (fst (isLikelyCanadian mapLower f did)), snd (isLikelyCanadian mapLower f did))"
  by (simp add: isLikelyCanadian_def keywordLoop_result split: option.splits)

text \<open>
  When an override is in place for \<open>did\<close> and no goroutine is about to write false for
  it, every action keeps it so, and a query for \<open>did\<close> that reaches its cache look-up
  returns true. The override wins in every schedule that starts from such a state.
\<close>

lemma act_keeps_override:
  assumes "cache (shared w) did = Some True"
    and "knownDIDs (shared w) did = Some True"
    and "\<forall>t. goroutines w t \<noteq> Some (AtWrite did False)"
  shows "cache (shared (act mapLower w a)) did = Some True
         \<and> knownDIDs (shared (act mapLower w a)) did = Some True
         \<and> (\<forall>t. goroutines (act mapLower w a) t \<noteq> Some (AtWrite did False))"
proof (cases a)
  case (Go t event)
  then show ?thesis
    using assms by (auto simp: startQuery_def split: option.splits)
next
  case (Step t)
  show ?thesis
  proof (cases "goroutines w t")
    case None
    then show ?thesis using assms Step by simp
  next
    case (Some pc)
    have "pc \<noteq> AtWrite did False"
      using assms(3) Some by auto
    then show ?thesis
      using assms Step Some
      by (cases pc) (auto simp: setCached_def split: option.splits)
  qed
next
  case (Add d)
  then show ?thesis
    using assms by (auto simp: AddCanadianDID_def)
qed

lemma run_keeps_override:
  assumes "cache (shared w) did = Some True"
    and "knownDIDs (shared w) did = Some True"
    and "\<forall>t. goroutines w t \<noteq> Some (AtWrite did False)"
  shows "cache (shared (run mapLower w as)) did = Some True
         \<and> knownDIDs (shared (run mapLower w as)) did = Some True
         \<and> (\<forall>t. goroutines (run mapLower w as) t \<noteq> Some (AtWrite did False))"
  using assms
proof (induction as arbitrary: w)
  case Nil
  then show ?case by simp
next
  case (Cons a as)
  have "cache (shared (act mapLower w a)) did = Some True
         \<and> knownDIDs (shared (act mapLower w a)) did = Some True
         \<and> (\<forall>t. goroutines (act mapLower w a) t \<noteq> Some (AtWrite did False))"
    using Cons.prems by (rule act_keeps_override)
  then show ?case
    using Cons.IH [of "act mapLower w a"] by simp
qed

lemma run_append: "run mapLower w (as @ bs) = run mapLower (run mapLower w as) bs"
  by (induction as arbitrary: w) simp_all

lemma override_wins_when_quiet:
  assumes "\<forall>t. goroutines w t \<noteq> Some (AtWrite did False)"
    and "extractRepo e = Some did"
  shows "goroutines (run mapLower (act mapLower w (Add did)) (as @ [Go t (Some e), Step t])) t
           = Some (Returned True)"
proof -
  let ?w = "run mapLower (act mapLower w (Add did)) as"
  have "cache (shared ?w) did = Some True"
    using assms(1) run_keeps_override [of "act mapLower w (Add did)" did mapLower as]
    by (simp add: AddCanadianDID_def)
  moreover have "run mapLower (act mapLower w (Add did)) (as @ [Go t (Some e), Step t])
      = act mapLower (act mapLower ?w (Go t (Some e))) (Step t)"
    by (simp add: run_append)
  ultimately show ?thesis
    using assms(2) by (simp add: startQuery_def)
qed

text \<open>
  Claim C4, on the code. Goroutine 0 queries \<open>did:plc:american-user\<close> on a new filter:
  it misses the cache, misses the override registry, and computes false with no lock held.
  \<open>AddCanadianDID\<close> then registers the subject. Goroutine 0 now runs \<open>setCached\<close> and
  writes its false over the override's true. The query of goroutine 1, which starts after
  all this, hits the cache and returns false, with the subject still in the override
  registry as included.
\<close>

theorem override_lost_to_stale_write:
  "goroutines
     (run id newWorld
        [Go 0 (Some \<lparr>RepoCommit = Some \<lparr>commit_Repo = ''did:plc:american-user'', commit_Seq = 1\<rparr>,
                     RepoIdentity = None, RepoAccount = None, RepoSync = None\<rparr>),
         Step 0, Step 0,
         Add ''did:plc:american-user'',
         Step 0,
         Go 1 (Some \<lparr>RepoCommit = Some \<lparr>commit_Repo = ''did:plc:american-user'', commit_Seq = 2\<rparr>,
                     RepoIdentity = None, RepoAccount = None, RepoSync = None\<rparr>),
         Step 1]) 1 = Some (Returned False)
   \<and> knownDIDs (shared
       (run id newWorld
        [Go 0 (Some \<lparr>RepoCommit = Some \<lparr>commit_Repo = ''did:plc:american-user'', commit_Seq = 1\<rparr>,
                     RepoIdentity = None, RepoAccount = None, RepoSync = None\<rparr>),
         Step 0, Step 0,
         Add ''did:plc:american-user'',
         Step 0])) ''did:plc:american-user'' = Some True
   \<and> cache (shared
       (run id newWorld
        [Go 0 (Some \<lparr>RepoCommit = Some \<lparr>commit_Repo = ''did:plc:american-user'', commit_Seq = 1\<rparr>,
                     RepoIdentity = None, RepoAccount = None, RepoSync = None\<rparr>),
         Step 0, Step 0,
         Add ''did:plc:american-user'',
         Step 0])) ''did:plc:american-user'' = Some False"
  by code_simp

text \<open>
  Claim C6, on the code. As before, goroutine 0 is about to write false for
  \<open>did:plc:american-user\<close> when \<open>AddCanadianDID\<close> caches true for it. The query of
  goroutine 1 returns that cached true. Goroutine 0 then runs \<open>setCached\<close>, which is no
  override write, and the query of goroutine 2 returns false: two queries for one cached
  subject, no override between them, and different answers.
\<close>

theorem stale_write_flips_cached_value:
  "goroutines
     (run id newWorld
        [Go 0 (Some \<lparr>RepoCommit = Some \<lparr>commit_Repo = ''did:plc:american-user'', commit_Seq = 1\<rparr>,
                     RepoIdentity = None, RepoAccount = None, RepoSync = None\<rparr>),
         Step 0, Step 0,
         Add ''did:plc:american-user'',
         Go 1 (Some \<lparr>RepoCommit = Some \<lparr>commit_Repo = ''did:plc:american-user'', commit_Seq = 2\<rparr>,
                     RepoIdentity = None, RepoAccount = None, RepoSync = None\<rparr>),
         Step 1]) 1 = Some (Returned True)
   \<and> goroutines
     (run id newWorld
        [Go 0 (Some \<lparr>RepoCommit = Some \<lparr>commit_Repo = ''did:plc:american-user'', commit_Seq = 1\<rparr>,
                     RepoIdentity = None, RepoAccount = None, RepoSync = None\<rparr>),
         Step 0, Step 0,
         Add ''did:plc:american-user'',
         Go 1 (Some \<lparr>RepoCommit = Some \<lparr>commit_Repo = ''did:plc:american-user'', commit_Seq = 2\<rparr>,
                     RepoIdentity = None, RepoAccount = None, RepoSync = None\<rparr>),
         Step 1,
         Step 0,
         Go 2 (Some \<lparr>RepoCommit = Some \<lparr>commit_Repo = ''did:plc:american-user'', commit_Seq = 3\<rparr>,
                     RepoIdentity = None, RepoAccount = None, RepoSync = None\<rparr>),
         Step 2]) 2 = Some (Returned False)"
  by code_simp

section \<open>Configuration and endpoints\<close>

text \<open>
  Claim C5. \<open>Validate\<close> returns an error exactly when the configuration is enabled
  and its country code is empty, or not two bytes long, or its upper-cased form is not in
  the allow-list (whose codes are their own upper-cased forms, \<open>validCodes_upper\<close>, so
  that this is membership up to case). A disabled configuration is valid whatever its
  country code, and the codes \<open>ca\<close>, \<open>CA\<close> and \<open>Ca\<close> are all valid when enabled.
\<close>

theorem Validate_error_iff:
  "(Validate mapUpper sc \<noteq> None \<longleftrightarrow>
      Enabled sc \<and> (CountryCode sc = [] \<or> length (CountryCode sc) \<noteq> 2
                     \<or> ToUpper mapUpper (CountryCode sc) \<notin> set validCodes))
   \<and> (\<not> Enabled sc \<longrightarrow> Validate mapUpper sc = None)
   \<and> Validate mapUpper (sc\<lparr>Enabled := True, CountryCode := ''ca''\<rparr>) = None
   \<and> Validate mapUpper (sc\<lparr>Enabled := True, CountryCode := ''CA''\<rparr>) = None
   \<and> Validate mapUpper (sc\<lparr>Enabled := True, CountryCode := ''Ca''\<rparr>) = None"
  by (simp add: Validate_def validLoop_set) (simp add: validCodes_def go_string_eval)

theorem Validate_error_iff_witness:
  "Validate id \<lparr>Enabled = True, CountryCode = ''XX'', DataRetentionDays = 0, PrivacyMode = []\<rparr> \<noteq> None
   \<and> Validate id \<lparr>Enabled = False, CountryCode = ''XX'', DataRetentionDays = 0, PrivacyMode = []\<rparr> = None
   \<and> Validate id \<lparr>Enabled = True, CountryCode = ''Ca'', DataRetentionDays = 0, PrivacyMode = []\<rparr> = None"
  using Validate_error_iff [of id "\<lparr>Enabled = True, CountryCode = ''XX'', DataRetentionDays = 0, PrivacyMode = []\<rparr>"]
    Validate_error_iff [of id "\<lparr>Enabled = False, CountryCode = ''XX'', DataRetentionDays = 0, PrivacyMode = []\<rparr>"]
    Validate_error_iff [of id "\<lparr>Enabled = True, CountryCode = ''xx'', DataRetentionDays = 0, PrivacyMode = []\<rparr>"]
  by (simp add: validCodes_def go_string_eval)



section \<open>The metrics singleton\<close>

text \<open>
  Claim C7. When a call of \<open>NewSovereigntyMetrics\<close> returns, the next call (with no
  reset in between) returns the same pointer and changes nothing, so nothing is registered
  twice. A first call on an unused \<open>Once\<close>, with none of the five names registered
  yet, builds the instance at a fresh address, and that instance is the one the next call
  returns.
\<close>

theorem NewSovereigntyMetrics_idempotent:
  "(NewSovereigntyMetrics g = (Inr p, g') \<longrightarrow> NewSovereigntyMetrics g' = (Inr p, g'))
   \<and> (\<not> sovereigntyMetricsOnce g \<and> set metricNames \<inter> set (registry g) = {} \<longrightarrow>
        fst (NewSovereigntyMetrics g) = Inr (Some (length (heap g)))
        \<and> length (heap g) < length (heap (snd (NewSovereigntyMetrics g)))
        \<and> NewSovereigntyMetrics (snd (NewSovereigntyMetrics g))
            = (Inr (Some (length (heap g))), snd (NewSovereigntyMetrics g)))"
proof (intro conjI impI)
  assume r: "NewSovereigntyMetrics g = (Inr p, g')"
  have "sovereigntyMetricsOnce g'"
    using NewSovereigntyMetrics_sets_once [of g] r by simp
  then show "NewSovereigntyMetrics g' = (Inr p, g')"
    using NewSovereigntyMetrics_returns_instance [OF r] by (simp add: NewSovereigntyMetrics_done)
next
  assume a: "\<not> sovereigntyMetricsOnce g \<and> set metricNames \<inter> set (registry g) = {}"
  then have reg: "registerAll (registry g) metricNames = (None, registry g @ metricNames)"
    by (simp add: registerAll_fresh metricNames_distinct)
  show "fst (NewSovereigntyMetrics g) = Inr (Some (length (heap g)))"
    using a reg by (simp add: NewSovereigntyMetrics_def)
  show "length (heap g) < length (heap (snd (NewSovereigntyMetrics g)))"
    using a reg by (simp add: NewSovereigntyMetrics_def)
  show "NewSovereigntyMetrics (snd (NewSovereigntyMetrics g))
            = (Inr (Some (length (heap g))), snd (NewSovereigntyMetrics g))"
    using a reg by (simp add: NewSovereigntyMetrics_def)
qed

theorem NewSovereigntyMetrics_idempotent_witness:
  "fst (NewSovereigntyMetrics initialGlobals) = Inr (Some 0)
   \<and> fst (NewSovereigntyMetrics (snd (NewSovereigntyMetrics initialGlobals))) = Inr (Some 0)
   \<and> snd (NewSovereigntyMetrics (snd (NewSovereigntyMetrics initialGlobals)))
       = snd (NewSovereigntyMetrics initialGlobals)"
  using NewSovereigntyMetrics_idempotent [of initialGlobals "Some 0" "snd (NewSovereigntyMetrics initialGlobals)"]
  by (simp add: initialGlobals_def metricNames_def)

section \<open>Event conversion\<close>

text \<open>
  Claim C10. \<open>ConvertXRPCToStreamEvent\<close> maps nil to nil. A non-nil event with none of
  \<open>RepoCommit\<close>, \<open>RepoIdentity\<close>, \<open>RepoAccount\<close> set becomes a non-nil
  \<open>StreamEvent\<close> with empty \<open>Repo\<close> and \<open>Kind\<close> and \<open>Seq = 0\<close>, whatever
  \<open>RepoSync\<close> holds; for such an event with \<open>RepoSync\<close> set, the classifier does
  extract the subject \<open>RepoSync.Repo\<close> and classifies it.
\<close>

theorem Convert_drops_sync_subject:
  "ConvertXRPCToStreamEvent now None = None
   \<and> (RepoCommit x = None \<and> RepoIdentity x = None \<and> RepoAccount x = None \<longrightarrow>
        ConvertXRPCToStreamEvent now (Some x)
          = Some \<lparr>Repo = [], Kind = [], Time = now, Seq = 0, Source = [], Country = [],
                  Verified = False\<rparr>)
   \<and> (RepoCommit x = None \<and> RepoIdentity x = None \<and> RepoAccount x = None \<and> RepoSync x = Some s \<longrightarrow>
        extractRepo x = Some (sync_Repo s)
        \<and> ShouldIncludeInSovereignFeed mapLower f (Some x) = isLikelyCanadian mapLower f (sync_Repo s))"
  by (simp add: ConvertXRPCToStreamEvent_def ShouldIncludeInSovereignFeed_def extractRepo_def)

theorem Convert_drops_sync_subject_witness:
  "ConvertXRPCToStreamEvent 1000
     (Some \<lparr>RepoCommit = None, RepoIdentity = None, RepoAccount = None,
            RepoSync = Some \<lparr>sync_Repo = ''did:plc:toronto-sync'', sync_Seq = 7\<rparr>\<rparr>)
     = Some \<lparr>Repo = [], Kind = [], Time = 1000, Seq = 0, Source = [], Country = [], Verified = False\<rparr>
   \<and> fst (ShouldIncludeInSovereignFeed id NewCanadianGeographicFilter
       (Some \<lparr>RepoCommit = None, RepoIdentity = None, RepoAccount = None,
            RepoSync = Some \<lparr>sync_Repo = ''did:plc:toronto-sync'', sync_Seq = 7\<rparr>\<rparr>)) = True"
  using Convert_drops_sync_subject
    [of 1000 "\<lparr>RepoCommit = None, RepoIdentity = None, RepoAccount = None,
            RepoSync = Some \<lparr>sync_Repo = ''did:plc:toronto-sync'', sync_Seq = 7\<rparr>\<rparr>"
        "\<lparr>sync_Repo = ''did:plc:toronto-sync'', sync_Seq = 7\<rparr>" id NewCanadianGeographicFilter]
  by (simp add: toronto_sync_included)

section \<open>Filter results\<close>

text \<open>
  Claim C9. Every result built by the two constructors satisfies "HashOnly implies not
  Pass": \<open>NewFilterResult pass reason\<close> has \<open>HashOnly = False\<close> for every \<open>pass\<close>
  and \<open>reason\<close>, and \<open>NewHashOnlyFilterResult reason\<close> has \<open>Pass = False\<close> and
  \<open>HashOnly = True\<close>.
\<close>

theorem FilterResult_constructors_invariant:
  "\<not> HashOnly (NewFilterResult pass reason)
   \<and> (HashOnly (NewFilterResult pass reason) \<longrightarrow> \<not> Pass (NewFilterResult pass reason))
   \<and> \<not> Pass (NewHashOnlyFilterResult reason')
   \<and> HashOnly (NewHashOnlyFilterResult reason')
   \<and> (HashOnly (NewHashOnlyFilterResult reason') \<longrightarrow> \<not> Pass (NewHashOnlyFilterResult reason'))"
  by (simp add: NewFilterResult_def NewHashOnlyFilterResult_def)

theorem FilterResult_constructors_invariant_witness:
  "\<not> HashOnly (NewFilterResult True ''canadian'')
   \<and> Pass (NewFilterResult True ''canadian'')
   \<and> HashOnly (NewHashOnlyFilterResult ''hash only'')
   \<and> \<not> Pass (NewHashOnlyFilterResult ''hash only'')"
  using FilterResult_constructors_invariant [of True "''canadian''" "''hash only''"]
  by (simp add: NewFilterResult_def)

end
